theory Spec2Isabelle
  imports Main "HOL-Library.Sublist"
begin

section \<open>JavaScript values, objects and thrown values\<close>

text \<open>
  The fragment of JavaScript values the declared input interfaces of
  \<^verbatim>\<open>python-actions.ts\<close> range over: strings, string arrays, and the two
  absent values \<^verbatim>\<open>undefined\<close> and \<^verbatim>\<open>null\<close> (booleans are kept for
  completeness). A payload object is the list of its own enumerable entries in
  insertion order, which is what \<^verbatim>\<open>Object.entries\<close> returns.
\<close>

datatype jsval = JUndefined | JNull | JBool bool | JStr string | JArr "jsval list"

type_synonym payload = "(string \<times> jsval) list"

text \<open>
  A thrown value is either an \<^verbatim>\<open>Error\<close> instance carrying its message or any
  other value (\<^verbatim>\<open>error instanceof Error\<close> is false for it).
\<close>

datatype thrown = ErrorObject string | OtherThrown

fun join_comma :: "string list \<Rightarrow> string" where
  "join_comma [] = []"
| "join_comma [s] = s"
| "join_comma (s # t # rest) = s @ '','' @ join_comma (t # rest)"

text \<open>
  \<^verbatim>\<open>FormData.append(key, value)\<close> stores the string conversion of a value that
  is not a Blob. An array converts by joining its elements with commas, an
  \<^verbatim>\<open>undefined\<close> or \<^verbatim>\<open>null\<close> element giving the empty string.
\<close>

fun ToString :: "jsval \<Rightarrow> string" where
  "ToString JUndefined = ''undefined''"
| "ToString JNull = ''null''"
| "ToString (JBool b) = (if b then ''true'' else ''false'')"
| "ToString (JStr s) = s"
| "ToString (JArr xs) =
     join_comma (map (\<lambda>x. if x = JUndefined \<or> x = JNull then [] else ToString x) xs)"

text \<open>Decimal rendering of a number in a template literal (\<^verbatim>\<open>${response.status}\<close>).\<close>

definition digit_char :: "nat \<Rightarrow> char" where
  "digit_char d =
     (if d = 0 then CHR ''0'' else if d = 1 then CHR ''1'' else if d = 2 then CHR ''2''
      else if d = 3 then CHR ''3'' else if d = 4 then CHR ''4'' else if d = 5 then CHR ''5''
      else if d = 6 then CHR ''6'' else if d = 7 then CHR ''7'' else if d = 8 then CHR ''8''
      else CHR ''9'')"

function string_of_nat :: "nat \<Rightarrow> string" where
  "string_of_nat n =
     (if n < 10 then [digit_char n] else string_of_nat (n div 10) @ [digit_char (n mod 10)])"
  by pat_completeness auto
termination
  by (relation "measure id") auto

declare string_of_nat.simps [simp del]

section \<open>The backend RPC client (python-actions.ts)\<close>

datatype 'u ActionResult = Success 'u | Failure string

datatype Body = FormData "(string \<times> string) list" | JsonText string

record Request =
  url :: string
  http_method :: string
  headers :: "(string \<times> string) list"
  body :: Body

text \<open>
  A response as the client observes it: the status, and what the two body
  readers \<^verbatim>\<open>response.text()\<close> and \<^verbatim>\<open>response.json()\<close> settle to (either may
  reject). The parsed JSON is taken at the output type the wrapper declares.
\<close>

record 'u Response =
  status :: nat
  read_text :: "thrown + string"
  read_json :: "thrown + 'u"

text \<open>\<^verbatim>\<open>response.ok\<close> of the Fetch API: the status is in the range 200 to 299.\<close>

definition ok :: "'u Response \<Rightarrow> bool" where
  "ok response = (200 \<le> status response \<and> status response \<le> 299)"

text \<open>
  What the server process runs against: the environment variable, the
  platform's \<^verbatim>\<open>JSON.stringify\<close> and \<^verbatim>\<open>fetch\<close>, each of which may throw.
\<close>

record 'u Backend =
  process_env_BACKEND_URL :: "string option"
  JSON_stringify :: "payload \<Rightarrow> thrown + string"
  fetch :: "Request \<Rightarrow> thrown + 'u Response"

definition BACKEND_URL :: "('u, 'x) Backend_scheme \<Rightarrow> string" where
  "BACKEND_URL env =
     (case process_env_BACKEND_URL env of
        None \<Rightarrow> ''http://localhost:8001''
      | Some u \<Rightarrow> if u = [] then ''http://localhost:8001'' else u)"

text \<open>The \<^verbatim>\<open>forEach\<close> over \<^verbatim>\<open>Object.entries(input)\<close> that fills the form data.\<close>

fun append_entries :: "payload \<Rightarrow> (string \<times> string) list \<Rightarrow> (string \<times> string) list" where
  "append_entries [] formData = formData"
| "append_entries ((key, value) # rest) formData =
     append_entries rest
       (if value \<noteq> JUndefined \<and> value \<noteq> JNull then formData @ [(key, ToString value)]
        else formData)"

text \<open>The request each branch hands to \<^verbatim>\<open>fetch\<close> (lines 13 to 34).\<close>

definition build_request :: "('u, 'x) Backend_scheme \<Rightarrow> string \<Rightarrow> payload \<Rightarrow> thrown + Request" where
  "build_request env endpoint input =
     (if endpoint = ''/generate-design'' then
        Inr \<lparr>url = BACKEND_URL env @ endpoint, http_method = ''POST'', headers = [],
             body = FormData (append_entries input [])\<rparr>
      else
        (case JSON_stringify env input of
           Inl e \<Rightarrow> Inl e
         | Inr json \<Rightarrow>
             Inr \<lparr>url = BACKEND_URL env @ endpoint, http_method = ''POST'',
                  headers = [(''Content-Type'', ''application/json'')],
                  body = JsonText json\<rparr>))"

text \<open>What follows the fetch inside the \<^verbatim>\<open>try\<close> block (lines 36 to 42).\<close>

definition read_response :: "'u Response \<Rightarrow> thrown + 'u ActionResult" where
  "read_response response =
     (if \<not> ok response then
        (case read_text response of
           Inl e \<Rightarrow> Inl e
         | Inr errorText \<Rightarrow>
             Inl (ErrorObject (''Backend request failed with status ''
                    @ string_of_nat (status response) @ '': '' @ errorText)))
      else
        (case read_json response of
           Inl e \<Rightarrow> Inl e
         | Inr result \<Rightarrow> Inr (Success result)))"

text \<open>
  The whole \<^verbatim>\<open>try\<close> block: the requests handed to \<^verbatim>\<open>fetch\<close>, and either the
  value thrown or the value returned.
\<close>

definition try_block ::
  "'u Backend \<Rightarrow> string \<Rightarrow> payload \<Rightarrow> Request list \<times> (thrown + 'u ActionResult)" where
  "try_block env endpoint input =
     (case build_request env endpoint input of
        Inl e \<Rightarrow> ([], Inl e)
      | Inr request \<Rightarrow>
          ([request],
           (case fetch env request of
              Inl e \<Rightarrow> Inl e
            | Inr response \<Rightarrow> read_response response)))"

text \<open>The \<^verbatim>\<open>catch\<close> clause (lines 43 to 47).\<close>

definition errorMessage :: "thrown \<Rightarrow> string" where
  "errorMessage error =
     (case error of ErrorObject message \<Rightarrow> message | OtherThrown \<Rightarrow> ''An unknown error occurred.'')"

definition catch_block :: "thrown \<Rightarrow> 'u ActionResult" where
  "catch_block error = Failure (errorMessage error)"

text \<open>
  \<^verbatim>\<open>handleBackendRequest\<close>: the requests it issued, and how the call ends,
  \<open>Inl\<close> standing for an exception that escapes to the caller.
\<close>

definition handleBackendRequest ::
  "'u Backend \<Rightarrow> string \<Rightarrow> payload \<Rightarrow> Request list \<times> (thrown + 'u ActionResult)" where
  "handleBackendRequest env endpoint input =
     (case try_block env endpoint input of
        (sent, Inl error) \<Rightarrow> (sent, Inr (catch_block error))
      | (sent, Inr result) \<Rightarrow> (sent, Inr result))"


section \<open>The action dispatch layer (python-actions.ts)\<close>

record 'd Output =
  data :: 'd

record GenerateDesignOutput = "string list Output" +
  echoed_prompt :: "string option"
  final_prompt :: "string option"
  image_ids :: "string list option"

type_synonym ChatOutput = "string Output"
type_synonym SuggestEditsOutput = "string Output"
type_synonym GeneratePromptOutput = "string Output"

record FlowGenerateImagePromptOutput =
  generatedPrompt :: string

record FlowGenerateInteriorDesignOutput =
  imageUrls :: "string list"

record FlowEditInteriorDesignOutput =
  editedImages :: "string list"

record FlowSuggestionOutput =
  suggestion :: string

type_synonym FlowGetDesignSuggestionsOutput = FlowSuggestionOutput
type_synonym FlowSuggestImageEditsOutput = FlowSuggestionOutput

record FlowSummarizeDesignStylesOutput =
  summaries :: "string list"

record FlowGenerateImageFromCadFloorPlanOutput =
  generatedImageUrls :: "string list"

type_synonym 'u action = "payload \<Rightarrow> Request list \<times> (thrown + 'u ActionResult)"

definition generateDesignAction :: "GenerateDesignOutput Backend \<Rightarrow> GenerateDesignOutput action" where
  "generateDesignAction env input = handleBackendRequest env ''/generate-design'' input"

definition chatAction :: "ChatOutput Backend \<Rightarrow> ChatOutput action" where
  "chatAction env input = handleBackendRequest env ''/chat'' input"

definition suggestEditsAction :: "SuggestEditsOutput Backend \<Rightarrow> SuggestEditsOutput action" where
  "suggestEditsAction env input = handleBackendRequest env ''/suggest-edits'' input"

definition generatePromptAction :: "GeneratePromptOutput Backend \<Rightarrow> GeneratePromptOutput action" where
  "generatePromptAction env input = handleBackendRequest env ''/generate-new-prompt'' input"

definition flowGenerateImagePrompt ::
  "FlowGenerateImagePromptOutput Backend \<Rightarrow> FlowGenerateImagePromptOutput action" where
  "flowGenerateImagePrompt env input =
     handleBackendRequest env ''/flow/generate-image-prompt'' input"

definition flowGenerateInteriorDesign ::
  "FlowGenerateInteriorDesignOutput Backend \<Rightarrow> FlowGenerateInteriorDesignOutput action" where
  "flowGenerateInteriorDesign env input =
     handleBackendRequest env ''/flow/generate-interior-design-from-prompt'' input"

definition flowEditInteriorDesign ::
  "FlowEditInteriorDesignOutput Backend \<Rightarrow> FlowEditInteriorDesignOutput action" where
  "flowEditInteriorDesign env input =
     handleBackendRequest env ''/flow/edit-interior-design-with-text'' input"

definition flowGetDesignSuggestions ::
  "FlowGetDesignSuggestionsOutput Backend \<Rightarrow> FlowGetDesignSuggestionsOutput action" where
  "flowGetDesignSuggestions env input =
     handleBackendRequest env ''/flow/get-design-suggestions-from-chat'' input"

definition flowSummarizeDesignStyles ::
  "FlowSummarizeDesignStylesOutput Backend \<Rightarrow> FlowSummarizeDesignStylesOutput action" where
  "flowSummarizeDesignStyles env input =
     handleBackendRequest env ''/flow/summarize-design-styles'' input"

definition flowSuggestImageEdits ::
  "FlowSuggestImageEditsOutput Backend \<Rightarrow> FlowSuggestImageEditsOutput action" where
  "flowSuggestImageEdits env input =
     handleBackendRequest env ''/flow/suggest-image-edits'' input"

definition flowGenerateImageFromCadFloorPlan ::
  "FlowGenerateImageFromCadFloorPlanOutput Backend
     \<Rightarrow> FlowGenerateImageFromCadFloorPlanOutput action" where
  "flowGenerateImageFromCadFloorPlan env input =
     handleBackendRequest env ''/flow/generate-image-from-cad-floor-plan'' input"

text \<open>
  The specification's three transport behaviours, read off the environment:
  the exception, if there is one, that request construction, the fetch itself
  or the JSON parse of a 2xx response raises.
\<close>

definition transport_fault :: "'u Backend \<Rightarrow> string \<Rightarrow> payload \<Rightarrow> thrown option" where
  "transport_fault env endpoint input =
     (case build_request env endpoint input of
        Inl e \<Rightarrow> Some e
      | Inr request \<Rightarrow>
          (case fetch env request of
             Inl e \<Rightarrow> Some e
           | Inr response \<Rightarrow>
               if ok response then
                 (case read_json response of Inl e \<Rightarrow> Some e | Inr result \<Rightarrow> None)
               else None))"

text \<open>
  A call is safe when it ends in a tagged result rather than in an exception,
  and when that result is the failure carrying the fault's message whenever
  the transport raised one.
\<close>

definition safe_call ::
  "'u Backend \<Rightarrow> string \<Rightarrow> payload \<Rightarrow> Request list \<times> (thrown + 'u ActionResult) \<Rightarrow> bool" where
  "safe_call env endpoint input call =
     (case snd call of
        Inl escaped \<Rightarrow> False
      | Inr result \<Rightarrow>
          (case transport_fault env endpoint input of
             None \<Rightarrow> True
           | Some e \<Rightarrow> result = Failure (errorMessage e)))"


section \<open>The studio controller (studio.tsx)\<close>

record Toast =
  variant :: string
  title :: string
  description :: string

datatype File = File string

text \<open>How a \<^verbatim>\<open>FileReader\<close> ends: \<^verbatim>\<open>onload\<close> with the data URI, or \<^verbatim>\<open>onerror\<close>.\<close>

datatype ReaderEvent = Onload string | Onerror

text \<open>
  \<^verbatim>\<open>fileToDataUri\<close>: the promise resolves with \<^verbatim>\<open>reader.result\<close> and rejects
  with the error event, which is not an \<^verbatim>\<open>Error\<close> instance.
\<close>

definition fileToDataUri :: "(File \<Rightarrow> ReaderEvent) \<Rightarrow> File \<Rightarrow> thrown + string" where
  "fileToDataUri readAsDataURL file =
     (case readAsDataURL file of Onload result \<Rightarrow> Inr result | Onerror \<Rightarrow> Inl OtherThrown)"

text \<open>The component's \<^verbatim>\<open>useState\<close> cells.\<close>

record Studio =
  prompt :: string
  style :: string
  activeTab :: string
  sourceImageFile :: "File option"
  floorPlanFile :: "File option"
  generatedImages :: "string list option"
  selectedImageIndex :: nat

text \<open>
  What a handler acts on: the component state, the notices shown so far and
  the backend requests issued so far. A handler is run to completion from the
  state it was rendered with; overlapping submissions are outside this model.
\<close>

record World =
  studio :: Studio
  toasts :: "Toast list"
  network :: "Request list"

definition setPrompt :: "string \<Rightarrow> World \<Rightarrow> World" where
  "setPrompt v w = w\<lparr>studio := (studio w)\<lparr>prompt := v\<rparr>\<rparr>"

definition setGeneratedImages :: "string list option \<Rightarrow> World \<Rightarrow> World" where
  "setGeneratedImages v w = w\<lparr>studio := (studio w)\<lparr>generatedImages := v\<rparr>\<rparr>"

definition setSelectedImageIndex :: "nat \<Rightarrow> World \<Rightarrow> World" where
  "setSelectedImageIndex v w = w\<lparr>studio := (studio w)\<lparr>selectedImageIndex := v\<rparr>\<rparr>"

definition toast :: "Toast \<Rightarrow> World \<Rightarrow> World" where
  "toast t w = w\<lparr>toasts := toasts w @ [t]\<rparr>"

text \<open>
  Awaiting an imported server action: the requests it issued are added to the
  log, and the call either rejects (\<open>Inl\<close>) or yields the action's result.
\<close>

definition await_action :: "'u action \<Rightarrow> payload \<Rightarrow> World \<Rightarrow> World \<times> (thrown + 'u ActionResult)" where
  "await_action action input w =
     (case action input of (sent, outcome) \<Rightarrow> (w\<lparr>network := network w @ sent\<rparr>, outcome))"

definition resetInputs :: "World \<Rightarrow> World" where
  "resetInputs w = setPrompt [] w"

definition handleClear :: "World \<Rightarrow> World" where
  "handleClear w = setSelectedImageIndex 0 (setGeneratedImages None w)"

text \<open>
  The statement each mode repeats after its call:
  \<^verbatim>\<open>if (result.success) setGeneratedImages(result.data.data)\<close>.
\<close>

definition show_images :: "GenerateDesignOutput ActionResult \<Rightarrow> World \<Rightarrow> World" where
  "show_images result w =
     (case result of
        Success output \<Rightarrow> setGeneratedImages (Some (data output)) w
      | Failure error \<Rightarrow> w)"

text \<open>
  Lines 83 to 88: on success reset the index and the inputs, otherwise throw
  an Error with the result's message, or the default one when it is empty.
\<close>

definition after_generation ::
  "GenerateDesignOutput ActionResult \<Rightarrow> World \<Rightarrow> World \<times> thrown option" where
  "after_generation result w =
     (case result of
        Success output \<Rightarrow> (resetInputs (setSelectedImageIndex 0 w), None)
      | Failure error \<Rightarrow>
          (w, Some (ErrorObject
                 (if error = [] then ''An unexpected error occurred.'' else error))))"

text \<open>
  What every mode does once its payload is ready: await the action, show the
  images of a successful result, then run lines 83 to 88.
\<close>

definition request_designs ::
  "GenerateDesignOutput action \<Rightarrow> payload \<Rightarrow> World \<Rightarrow> World \<times> thrown option" where
  "request_designs generateDesign input w =
     (case await_action generateDesign input w of
        (w', Inl e) \<Rightarrow> (w', Some e)
      | (w', Inr result) \<Rightarrow> after_generation result (show_images result w'))"

text \<open>
  The \<^verbatim>\<open>try\<close> block of \<^verbatim>\<open>handleGenerationSubmit\<close> (lines 49 to 88), reading
  \<^verbatim>\<open>prompt\<close>, \<^verbatim>\<open>style\<close> and the two files from the render the handler
  closed over. It ends with the world it left and the value thrown, if any; a
  \<^verbatim>\<open>return\<close> ends it with nothing thrown.
\<close>

definition generation_try ::
  "GenerateDesignOutput action \<Rightarrow> (File \<Rightarrow> ReaderEvent) \<Rightarrow> Studio \<Rightarrow> string \<Rightarrow> World
     \<Rightarrow> World \<times> thrown option" where
  "generation_try generateDesign readAsDataURL render mode w =
     (if mode = ''text'' then
        (if prompt render = [] \<or> style render = [] then
           (toast \<lparr>variant = ''destructive'', title = ''Missing fields'',
                   description = ''Please provide a prompt and select a style.''\<rparr> w, None)
         else
           request_designs generateDesign
                   [(''prompt'', JStr (prompt render)), (''style'', JStr (style render)),
                    (''mode'', JStr ''text'')] w)
      else if mode = ''image'' then
        (case sourceImageFile render of
           None \<Rightarrow>
             (toast \<lparr>variant = ''destructive'', title = ''Missing fields'',
                     description = ''Please upload a base image and provide an edit prompt.''\<rparr> w,
              None)
         | Some file \<Rightarrow>
             if prompt render = [] then
               (toast \<lparr>variant = ''destructive'', title = ''Missing fields'',
                       description = ''Please upload a base image and provide an edit prompt.''\<rparr> w,
                None)
             else
               (case fileToDataUri readAsDataURL file of
                  Inl e \<Rightarrow> (w, Some e)
                | Inr baseImage \<Rightarrow>
                    request_designs generateDesign
                            [(''prompt'', JStr (prompt render)), (''style'', JStr (style render)),
                             (''mode'', JStr ''image''), (''baseImage'', JStr baseImage)] w))
      else if mode = ''floorplan'' then
        (case floorPlanFile render of
           None \<Rightarrow>
             (toast \<lparr>variant = ''destructive'', title = ''Missing fields'',
                     description = ''Please upload a floor plan and select a style.''\<rparr> w,
              None)
         | Some file \<Rightarrow>
             if style render = [] then
               (toast \<lparr>variant = ''destructive'', title = ''Missing fields'',
                       description = ''Please upload a floor plan and select a style.''\<rparr> w,
                None)
             else
               (case fileToDataUri readAsDataURL file of
                  Inl e \<Rightarrow> (w, Some e)
                | Inr floorPlan \<Rightarrow>
                    request_designs generateDesign
                            [(''prompt'', JStr (prompt render)), (''style'', JStr (style render)),
                             (''mode'', JStr ''floorplan''), (''floorPlan'', JStr floorPlan)] w))
      else (w, None))"

text \<open>
  \<^verbatim>\<open>handleGenerationSubmit\<close>: the images are set to null, the \<^verbatim>\<open>try\<close> block
  runs, and the \<^verbatim>\<open>catch\<close> clause shows what was thrown.
\<close>

definition handleGenerationSubmit ::
  "GenerateDesignOutput action \<Rightarrow> (File \<Rightarrow> ReaderEvent) \<Rightarrow> string \<Rightarrow> World \<Rightarrow> World" where
  "handleGenerationSubmit generateDesign readAsDataURL mode w =
     (case generation_try generateDesign readAsDataURL (studio w) mode
             (setGeneratedImages None w) of
        (w', None) \<Rightarrow> w'
      | (w', Some error) \<Rightarrow>
          toast \<lparr>variant = ''destructive'', title = ''Generation Failed'',
                  description = (case error of
                                   ErrorObject message \<Rightarrow> message
                                 | OtherThrown \<Rightarrow> ''Please try again later.'')\<rparr> w')"

text \<open>The \<^verbatim>\<open>try\<close> block of \<^verbatim>\<open>handleEditSubmit\<close> (lines 108 to 116).\<close>

definition edit_try ::
  "ChatOutput action \<Rightarrow> Studio \<Rightarrow> string list \<Rightarrow> string \<Rightarrow> World \<Rightarrow> World \<times> thrown option" where
  "edit_try editDesignAction render images editPrompt w =
     (let baseImage = (if selectedImageIndex render < length images
                       then JStr (images ! selectedImageIndex render) else JUndefined)
      in case await_action editDesignAction
                [(''query'', JStr (''Edit this image with the following prompt: '' @ editPrompt))] w of
           (w', Inl e) \<Rightarrow> (w', Some e)
         | (w', Inr (Success output)) \<Rightarrow>
             (setSelectedImageIndex 0 (setGeneratedImages (Some [data output]) w'), None)
         | (w', Inr (Failure error)) \<Rightarrow>
             (w', Some (ErrorObject
                      (if error = [] then ''An unexpected error occurred.'' else error))))"

definition handleEditSubmit :: "ChatOutput action \<Rightarrow> string \<Rightarrow> World \<Rightarrow> World" where
  "handleEditSubmit editDesignAction editPrompt w =
     (case generatedImages (studio w) of
        None \<Rightarrow>
          toast \<lparr>variant = ''destructive'', title = ''No image to edit'',
                  description = ''Please generate an image first.''\<rparr> w
      | Some images \<Rightarrow>
          if length images = 0 then
            toast \<lparr>variant = ''destructive'', title = ''No image to edit'',
                    description = ''Please generate an image first.''\<rparr> w
          else
            (case edit_try editDesignAction (studio w) images editPrompt w of
               (w', None) \<Rightarrow> w'
             | (w', Some error) \<Rightarrow>
                 toast \<lparr>variant = ''destructive'', title = ''Edit Failed'',
                         description = (case error of
                                          ErrorObject message \<Rightarrow> message
                                        | OtherThrown \<Rightarrow> ''Please try again later.'')\<rparr> w'))"

section \<open>The design chat (design-chat.tsx)\<close>

datatype Role = User | Assistant

record Message =
  role :: Role
  content :: string

text \<open>
  What the transition's callback closed over when the query was submitted:
  the transcript of that render, the transcript with the query appended, and
  the query.
\<close>

record Closure =
  rendered_messages :: "Message list"
  newMessages :: "Message list"
  query :: string

text \<open>
  The component's state cells and the notices shown so far. The transition is
  pending from the submission until its callback has run; \<open>pending\<close> holds the
  callback's closure for that time.
\<close>

record DesignChat =
  messages :: "Message list"
  input :: string
  pending :: "Closure option"
  notices :: "Toast list"

definition isPending :: "DesignChat \<Rightarrow> bool" where
  "isPending c = (pending c \<noteq> None)"

text \<open>\<^verbatim>\<open>String.prototype.trim\<close> on the white space of the Latin-1 range.\<close>

definition is_white_space :: "char \<Rightarrow> bool" where
  "is_white_space ch =
     (ch = CHR '' '' \<or> ch = CHR 0x09 \<or> ch = CHR 0x0A \<or> ch = CHR 0x0B \<or> ch = CHR 0x0C
      \<or> ch = CHR 0x0D \<or> ch = CHR 0xA0)"

definition trim :: "string \<Rightarrow> string" where
  "trim s = rev (dropWhile is_white_space (rev (dropWhile is_white_space s)))"

definition initial_chat :: DesignChat where
  "initial_chat = \<lparr>messages = [], input = [], pending = None, notices = []\<rparr>"

definition setInput :: "string \<Rightarrow> DesignChat \<Rightarrow> DesignChat" where
  "setInput v c = c\<lparr>input := v\<rparr>"

text \<open>\<^verbatim>\<open>handleSubmit\<close> up to the start of the transition (lines 32 to 40).\<close>

definition handleSubmit :: "DesignChat \<Rightarrow> DesignChat" where
  "handleSubmit c =
     (if trim (input c) = [] \<or> isPending c then c
      else
        (let newMessages = messages c @ [\<lparr>role = User, content = input c\<rparr>];
             query = input c
         in c\<lparr>messages := newMessages, input := [],
               pending := Some \<lparr>rendered_messages = messages c, newMessages = newMessages,
                                query = query\<rparr>\<rparr>))"

text \<open>
  The transition's callback (lines 41 to 51), run to completion with the
  action it awaits. A rejected call sets nothing.
\<close>

definition transition :: "ChatOutput action \<Rightarrow> DesignChat \<Rightarrow> DesignChat" where
  "transition chat c =
     (case pending c of
        None \<Rightarrow> c
      | Some closure \<Rightarrow>
          (case snd (chat [(''query'', JStr (query closure))]) of
             Inl e \<Rightarrow> c\<lparr>pending := None\<rparr>
           | Inr (Success output) \<Rightarrow>
               c\<lparr>messages := newMessages closure @ [\<lparr>role = Assistant, content = data output\<rparr>],
                 pending := None\<rparr>
           | Inr (Failure error) \<Rightarrow>
               c\<lparr>notices := notices c @ [\<lparr>variant = ''destructive'', title = ''Error'',
                                           description = error\<rparr>],
                 messages := rendered_messages closure,
                 pending := None\<rparr>))"

text \<open>The states the component can be in: typing, submitting and settling, from the start.\<close>

inductive reachable :: "DesignChat \<Rightarrow> bool" where
  start: "reachable initial_chat"
| typed: "reachable c \<Longrightarrow> reachable (setInput v c)"
| submitted: "reachable c \<Longrightarrow> reachable (handleSubmit c)"
| settled: "reachable c \<Longrightarrow> reachable (transition chat c)"

text \<open>While a query is in flight the transcript is the one the callback closed over.\<close>

definition in_flight_consistent :: "DesignChat \<Rightarrow> bool" where
  "in_flight_consistent c =
     (case pending c of
        None \<Rightarrow> True
      | Some closure \<Rightarrow>
          messages c = newMessages closure
          \<and> newMessages closure
             = rendered_messages closure @ [\<lparr>role = User, content = query closure\<rparr>])"

section \<open>Submission scenarios\<close>

text \<open>
  The specification's validation rule: text needs a prompt and a style, image
  needs a selected source file and a prompt, floorplan needs a selected
  floor-plan file and a style.
\<close>

definition missing_fields :: "string \<Rightarrow> Studio \<Rightarrow> bool" where
  "missing_fields mode st =
     (if mode = ''text'' then prompt st = [] \<or> style st = []
      else if mode = ''image'' then sourceImageFile st = None \<or> prompt st = []
      else if mode = ''floorplan'' then floorPlanFile st = None \<or> style st = []
      else False)"

text \<open>The file a mode converts to a data URI, and the payload it sends.\<close>

definition mode_file :: "string \<Rightarrow> Studio \<Rightarrow> File option" where
  "mode_file mode st =
     (if mode = ''image'' then sourceImageFile st
      else if mode = ''floorplan'' then floorPlanFile st
      else None)"

definition mode_payload :: "string \<Rightarrow> Studio \<Rightarrow> string \<Rightarrow> payload" where
  "mode_payload mode st dataUri =
     [(''prompt'', JStr (prompt st)), (''style'', JStr (style st)), (''mode'', JStr mode)]
     @ (if mode = ''image'' then [(''baseImage'', JStr dataUri)]
        else if mode = ''floorplan'' then [(''floorPlan'', JStr dataUri)]
        else [])"

text \<open>
  How a submission that passes validation comes out: the file read rejects,
  or the action is called with the mode's payload and rejects or returns.
  \<open>None\<close> when nothing is dispatched.
\<close>

definition generation_outcome ::
  "GenerateDesignOutput action \<Rightarrow> (File \<Rightarrow> ReaderEvent) \<Rightarrow> string \<Rightarrow> Studio
     \<Rightarrow> (thrown + GenerateDesignOutput ActionResult) option" where
  "generation_outcome generateDesign readAsDataURL mode st =
     (if missing_fields mode st then None
      else if mode = ''text'' then Some (snd (generateDesign (mode_payload mode st [])))
      else if mode = ''image'' \<or> mode = ''floorplan'' then
        (case mode_file mode st of
           None \<Rightarrow> None
         | Some file \<Rightarrow>
             (case fileToDataUri readAsDataURL file of
                Inl e \<Rightarrow> Some (Inl e)
              | Inr dataUri \<Rightarrow> Some (snd (generateDesign (mode_payload mode st dataUri)))))
      else None)"

text \<open>
  The message a failed outcome is reported with: a thrown Error's message, a
  fixed text for any other thrown value, and a failure result's error string
  (a default when that string is empty). A success has none.
\<close>

definition failure_message :: "thrown + 'u ActionResult \<Rightarrow> string option" where
  "failure_message outcome =
     (case outcome of
        Inl (ErrorObject message) \<Rightarrow> Some message
      | Inl OtherThrown \<Rightarrow> Some ''Please try again later.''
      | Inr (Failure error) \<Rightarrow>
          Some (if error = [] then ''An unexpected error occurred.'' else error)
      | Inr (Success output) \<Rightarrow> None)"

section \<open>Sample environments\<close>

text \<open>
  A stand-in for \<^verbatim>\<open>JSON.stringify\<close> on flat objects: it writes the keys and
  the values in order, without quoting or escaping.
\<close>

definition sample_stringify :: "payload \<Rightarrow> thrown + string" where
  "sample_stringify inp =
     Inr (''{'' @ join_comma (map (\<lambda>(key, value). key @ '':'' @ ToString value) inp) @ ''}'')"

text \<open>A backend that answers every request with HTTP 500 and a plain-text body.\<close>

definition overloaded_backend :: "'u Backend" where
  "overloaded_backend =
     \<lparr>process_env_BACKEND_URL = None,
      JSON_stringify = sample_stringify,
      fetch = (\<lambda>request.
        Inr \<lparr>status = 500, read_text = Inr ''model overloaded'',
             read_json = Inl (ErrorObject ''Unexpected token m in JSON'')\<rparr>)\<rparr>"

text \<open>
  A backend that answers HTTP 500 and then drops the connection, so that
  reading the body rejects with an Error.
\<close>

definition dropping_backend :: "'u Backend" where
  "dropping_backend =
     \<lparr>process_env_BACKEND_URL = None,
      JSON_stringify = sample_stringify,
      fetch = (\<lambda>request.
        Inr \<lparr>status = 500, read_text = Inl (ErrorObject ''terminated''),
             read_json = Inl (ErrorObject ''terminated'')\<rparr>)\<rparr>"

text \<open>A backend that cannot be reached: the fetch rejects with a value that is no Error.\<close>

definition unreachable_backend :: "'u Backend" where
  "unreachable_backend =
     \<lparr>process_env_BACKEND_URL = Some ''http://backend:9000'',
      JSON_stringify = sample_stringify,
      fetch = (\<lambda>request. Inl OtherThrown)\<rparr>"

text \<open>A backend that answers every request with HTTP 200 and a parsed JSON body.\<close>

definition answering_backend :: "'u \<Rightarrow> 'u Backend" where
  "answering_backend output =
     \<lparr>process_env_BACKEND_URL = None,
      JSON_stringify = sample_stringify,
      fetch = (\<lambda>request.
        Inr \<lparr>status = 200, read_text = Inr ''{}'', read_json = Inr output\<rparr>)\<rparr>"

definition two_designs :: GenerateDesignOutput where
  "two_designs =
     \<lparr>data = [''/images/a.png'', ''/images/b.png''], echoed_prompt = None,
      final_prompt = None, image_ids = None\<rparr>"

text \<open>A file reader that always ends in \<^verbatim>\<open>onerror\<close>, and one that always loads.\<close>

definition failing_reader :: "File \<Rightarrow> ReaderEvent" where
  "failing_reader file = Onerror"

definition loading_reader :: "File \<Rightarrow> ReaderEvent" where
  "loading_reader file = Onload ''data:image/png;base64,AAAA''"

text \<open>
  A studio showing one image from an earlier generation, with a prompt and a
  style entered and no file selected.
\<close>

definition showing_one_image :: World where
  "showing_one_image =
     \<lparr>studio = \<lparr>prompt = ''Cozy Scandinavian living room'', style = ''Scandinavian'',
                activeTab = ''text'', sourceImageFile = None, floorPlanFile = None,
                generatedImages = Some [''/images/earlier.png''], selectedImageIndex = 0\<rparr>,
      toasts = [], network = []\<rparr>"

text \<open>The same studio, now with a source image selected and two images shown.\<close>

definition showing_two_images :: World where
  "showing_two_images =
     \<lparr>studio = \<lparr>prompt = ''add a red sofa'', style = ''Modern'',
                activeTab = ''image'', sourceImageFile = Some (File ''room.png''),
                floorPlanFile = None,
                generatedImages = Some [''/images/a.png'', ''/images/b.png''],
                selectedImageIndex = 1\<rparr>,
      toasts = [], network = []\<rparr>"

text \<open>The chat after the user has typed a question and submitted it.\<close>

definition asked_hello :: DesignChat where
  "asked_hello = handleSubmit (setInput ''hello'' initial_chat)"

definition warm_neutrals :: ChatOutput where
  "warm_neutrals = \<lparr>data = ''Try warm neutrals.''\<rparr>"

text \<open>The payload a generation in text mode sends, with the two optional keys absent.\<close>

definition text_mode_payload :: payload where
  "text_mode_payload =
     [(''prompt'', JStr ''Cozy Scandinavian living room''), (''style'', JStr ''Scandinavian''),
      (''mode'', JStr ''text''), (''baseImage'', JUndefined), (''floorPlan'', JNull)]"

section \<open>Properties of the RPC client\<close>

lemma append_entries_filter:
  "append_entries inp formData =
     formData @ map (\<lambda>(key, value). (key, ToString value))
                  (filter (\<lambda>(key, value). value \<noteq> JUndefined \<and> value \<noteq> JNull) inp)"
  by (induction inp formData rule: append_entries.induct) auto

lemma handleBackendRequest_returns:
  "\<exists>result. snd (handleBackendRequest env endpoint inp) = Inr result"
  by (simp add: handleBackendRequest_def split: prod.split sum.split)

lemma handleBackendRequest_safe:
  "safe_call env endpoint inp (handleBackendRequest env endpoint inp)"
  by (simp add: safe_call_def transport_fault_def handleBackendRequest_def try_block_def
        read_response_def catch_block_def split: sum.split)

lemma errorMessage_cases:
  "errorMessage (ErrorObject message) = message"
  "errorMessage OtherThrown = ''An unknown error occurred.''"
  by (simp_all add: errorMessage_def)

text \<open>
  C4, as the code has it. When the backend answers with a status outside
  200..299, \<^verbatim>\<open>handleBackendRequest\<close> returns a failure result and raises
  nothing. When the body can be read as text, the error string is the fixed
  prefix followed by the decimal status and the body text, so it contains
  both. When reading the body rejects, the error string is the message of the
  value thrown by the read (the generic message when that is no Error), and
  the status does not appear in it.
\<close>

theorem non_2xx_response_is_failure:
  assumes "build_request env endpoint inp = Inr request"
    and "fetch env request = Inr response"
    and "status response < 200 \<or> 299 < status response"
  shows "\<exists>error. snd (handleBackendRequest env endpoint inp) = Inr (Failure error)
           \<and> (\<forall>errorText. read_text response = Inr errorText \<longrightarrow>
                 error = ''Backend request failed with status ''
                           @ string_of_nat (status response) @ '': '' @ errorText
                 \<and> sublist (string_of_nat (status response)) error
                 \<and> sublist errorText error)
           \<and> (\<forall>e. read_text response = Inl e \<longrightarrow> error = errorMessage e)"
proof -
  from assms(3) have not_ok: "\<not> ok response"
    by (auto simp: ok_def)
  show ?thesis
  proof (cases "read_text response")
    case (Inl e)
    with assms(1,2) not_ok show ?thesis
      by (simp add: handleBackendRequest_def try_block_def read_response_def catch_block_def)
  next
    case (Inr errorText)
    let ?error = "''Backend request failed with status ''
                    @ string_of_nat (status response) @ '': '' @ errorText"
    from Inr assms(1,2) not_ok
    have "snd (handleBackendRequest env endpoint inp) = Inr (Failure ?error)"
      by (simp add: handleBackendRequest_def try_block_def read_response_def catch_block_def
            errorMessage_def)
    moreover have "sublist (string_of_nat (status response)) ?error"
      unfolding sublist_def by blast
    moreover have "sublist errorText ?error"
      unfolding sublist_def by (metis append.assoc append_Nil2)
    ultimately show ?thesis
      using Inr by simp
  qed
qed

theorem non_2xx_response_is_failure_witness:
  "snd (handleBackendRequest (overloaded_backend :: ChatOutput Backend) ''/chat''
          [(''query'', JStr ''hello'')])
     = Inr (Failure ''Backend request failed with status 500: model overloaded'')"
proof -
  let ?env = "overloaded_backend :: ChatOutput Backend"
  let ?request = "\<lparr>url = ''http://localhost:8001/chat'', http_method = ''POST'',
                    headers = [(''Content-Type'', ''application/json'')],
                    body = JsonText ''{query:hello}''\<rparr>"
  let ?response = "\<lparr>status = 500, read_text = Inr ''model overloaded'',
                     read_json = Inl (ErrorObject ''Unexpected token m in JSON'')\<rparr>
                   :: ChatOutput Response"
  have built: "build_request ?env ''/chat'' [(''query'', JStr ''hello'')] = Inr ?request"
    by (simp add: build_request_def overloaded_backend_def BACKEND_URL_def sample_stringify_def)
  have fetched: "fetch ?env ?request = Inr ?response"
    by (simp add: overloaded_backend_def)
  have status: "status ?response < 200 \<or> 299 < status ?response"
    by simp
  have digits: "string_of_nat 500 = ''500''"
    by (simp add: string_of_nat.simps digit_char_def)
  from non_2xx_response_is_failure [OF built fetched status] digits
  show ?thesis
    by auto
qed

theorem non_2xx_error_contains_status_counterexample:
  "build_request (dropping_backend :: ChatOutput Backend) ''/chat'' [(''query'', JStr ''hello'')]
     = Inr \<lparr>url = ''http://localhost:8001/chat'', http_method = ''POST'',
            headers = [(''Content-Type'', ''application/json'')],
            body = JsonText ''{query:hello}''\<rparr>
   \<and> fetch (dropping_backend :: ChatOutput Backend)
         \<lparr>url = ''http://localhost:8001/chat'', http_method = ''POST'',
          headers = [(''Content-Type'', ''application/json'')],
          body = JsonText ''{query:hello}''\<rparr>
     = Inr \<lparr>status = 500, read_text = Inl (ErrorObject ''terminated''),
            read_json = Inl (ErrorObject ''terminated'')\<rparr>
   \<and> string_of_nat 500 = ''500''
   \<and> snd (handleBackendRequest (dropping_backend :: ChatOutput Backend) ''/chat''
            [(''query'', JStr ''hello'')])
     = Inr (Failure ''terminated'')
   \<and> \<not> sublist ''500'' ''terminated''"
proof -
  have "\<not> sublist ''500'' ''terminated''"
    by code_simp
  then show ?thesis
    by (simp add: handleBackendRequest_def try_block_def build_request_def read_response_def
          ok_def catch_block_def errorMessage_def BACKEND_URL_def dropping_backend_def
          sample_stringify_def string_of_nat.simps digit_char_def)
qed

text \<open>
  C5. Each of the eleven wrappers, on every payload and against every
  environment, ends in a tagged result and never in an exception; and when
  request construction, the fetch or the JSON parse of a 2xx response throws,
  the result is the failure carrying the thrown Error's message, or the
  generic message when the thrown value is not an Error.
\<close>

theorem wrappers_never_raise:
  "safe_call e1 ''/generate-design'' i1 (generateDesignAction e1 i1)
   \<and> safe_call e2 ''/chat'' i2 (chatAction e2 i2)
   \<and> safe_call e3 ''/suggest-edits'' i3 (suggestEditsAction e3 i3)
   \<and> safe_call e4 ''/generate-new-prompt'' i4 (generatePromptAction e4 i4)
   \<and> safe_call e5 ''/flow/generate-image-prompt'' i5 (flowGenerateImagePrompt e5 i5)
   \<and> safe_call e6 ''/flow/generate-interior-design-from-prompt'' i6
        (flowGenerateInteriorDesign e6 i6)
   \<and> safe_call e7 ''/flow/edit-interior-design-with-text'' i7 (flowEditInteriorDesign e7 i7)
   \<and> safe_call e8 ''/flow/get-design-suggestions-from-chat'' i8
        (flowGetDesignSuggestions e8 i8)
   \<and> safe_call e9 ''/flow/summarize-design-styles'' i9 (flowSummarizeDesignStyles e9 i9)
   \<and> safe_call e10 ''/flow/suggest-image-edits'' i10 (flowSuggestImageEdits e10 i10)
   \<and> safe_call e11 ''/flow/generate-image-from-cad-floor-plan'' i11
        (flowGenerateImageFromCadFloorPlan e11 i11)
   \<and> errorMessage (ErrorObject message) = message
   \<and> errorMessage OtherThrown = ''An unknown error occurred.''"
  unfolding generateDesignAction_def chatAction_def suggestEditsAction_def
    generatePromptAction_def flowGenerateImagePrompt_def flowGenerateInteriorDesign_def
    flowEditInteriorDesign_def flowGetDesignSuggestions_def flowSummarizeDesignStyles_def
    flowSuggestImageEdits_def flowGenerateImageFromCadFloorPlan_def
  by (intro conjI handleBackendRequest_safe errorMessage_cases)

theorem wrappers_never_raise_witness:
  "snd (chatAction unreachable_backend [(''query'', JStr ''hello'')])
     = Inr (Failure ''An unknown error occurred.'')
   \<and> transport_fault (unreachable_backend :: ChatOutput Backend) ''/chat''
        [(''query'', JStr ''hello'')] = Some OtherThrown"
proof -
  have fault: "transport_fault (unreachable_backend :: ChatOutput Backend) ''/chat''
                 [(''query'', JStr ''hello'')] = Some OtherThrown"
    by (simp add: transport_fault_def build_request_def unreachable_backend_def
          sample_stringify_def)
  have "safe_call unreachable_backend ''/chat'' [(''query'', JStr ''hello'')]
          (chatAction unreachable_backend [(''query'', JStr ''hello'')])"
    by (rule wrappers_never_raise [THEN conjunct2, THEN conjunct1])
  with fault show ?thesis
    by (auto simp: safe_call_def errorMessage_def split: sum.splits)
qed

text \<open>
  C8. For a payload object (its keys are distinct) sent to
  \<^verbatim>\<open>/generate-design\<close>, the one request issued carries form data with one
  field for each key whose value is neither undefined nor null, in the
  payload's order, and no field for any other key. For every other endpoint
  the one request issued carries the JSON text of the payload and the header
  \<^verbatim>\<open>Content-Type: application/json\<close>.
\<close>

theorem request_body_encoding:
  assumes "distinct (map fst inp)"
  shows "(\<exists>fields.
            fst (handleBackendRequest env ''/generate-design'' inp)
              = [\<lparr>url = BACKEND_URL env @ ''/generate-design'', http_method = ''POST'',
                   headers = [], body = FormData fields\<rparr>]
            \<and> fields
                = map (\<lambda>(key, value). (key, ToString value))
                    (filter (\<lambda>(key, value). value \<noteq> JUndefined \<and> value \<noteq> JNull) inp)
            \<and> map fst fields
                = map fst (filter (\<lambda>(key, value). value \<noteq> JUndefined \<and> value \<noteq> JNull) inp)
            \<and> distinct (map fst fields)
            \<and> (\<forall>key value. (key, value) \<in> set inp \<longrightarrow>
                  (if value = JUndefined \<or> value = JNull then key \<notin> fst ` set fields
                   else (key, ToString value) \<in> set fields)))
         \<and> (\<forall>endpoint json. endpoint \<noteq> ''/generate-design''
               \<and> JSON_stringify env inp = Inr json \<longrightarrow>
               fst (handleBackendRequest env endpoint inp)
                 = [\<lparr>url = BACKEND_URL env @ endpoint, http_method = ''POST'',
                      headers = [(''Content-Type'', ''application/json'')],
                      body = JsonText json\<rparr>])"
proof -
  let ?kept = "filter (\<lambda>(key, value). value \<noteq> JUndefined \<and> value \<noteq> JNull) inp"
  let ?fields = "map (\<lambda>(key, value). (key, ToString value)) ?kept"
  have sent: "fst (handleBackendRequest env ''/generate-design'' inp)
                = [\<lparr>url = BACKEND_URL env @ ''/generate-design'', http_method = ''POST'',
                     headers = [], body = FormData ?fields\<rparr>]"
    by (simp add: handleBackendRequest_def try_block_def build_request_def
          append_entries_filter split: sum.split)
  have keys: "map fst ?fields = map fst ?kept"
    by (simp add: case_prod_unfold comp_def)
  have dist_kept: "distinct (map fst ?kept)"
    using assms by (rule distinct_map_filter)
  have each: "(if v = JUndefined \<or> v = JNull then k \<notin> fst ` set ?fields
               else (k, ToString v) \<in> set ?fields)"
    if mem: "(k, v) \<in> set inp" for k v
  proof (cases "v = JUndefined \<or> v = JNull")
    case True
    have "k \<notin> fst ` set ?kept"
    proof
      assume "k \<in> fst ` set ?kept"
      then obtain v' where v': "(k, v') \<in> set inp" "v' \<noteq> JUndefined" "v' \<noteq> JNull"
        by auto
      from assms mem v'(1) have "v' = v"
        by (meson eq_key_imp_eq_value)
      with True v'(2,3) show False by simp
    qed
    moreover have "fst ` set ?fields = fst ` set ?kept"
      using keys by (metis list.set_map)
    ultimately show ?thesis
      using True by simp
  next
    case False
    with mem have "(k, v) \<in> set ?kept"
      by simp
    then have "(k, ToString v) \<in> set ?fields"
      by force
    with False show ?thesis by simp
  qed
  have json: "fst (handleBackendRequest env endpoint inp)
                 = [\<lparr>url = BACKEND_URL env @ endpoint, http_method = ''POST'',
                      headers = [(''Content-Type'', ''application/json'')],
                      body = JsonText json\<rparr>]"
    if "endpoint \<noteq> ''/generate-design''" "JSON_stringify env inp = Inr json"
    for endpoint json
    using that
    by (simp add: handleBackendRequest_def try_block_def build_request_def split: sum.split)
  from sent keys dist_kept each json show ?thesis
    by (intro conjI exI [of _ ?fields] allI impI) (simp_all only: keys, blast+)
qed

theorem request_body_encoding_witness:
  "fst (handleBackendRequest (overloaded_backend :: GenerateDesignOutput Backend)
          ''/generate-design'' text_mode_payload)
     = [\<lparr>url = ''http://localhost:8001/generate-design'', http_method = ''POST'', headers = [],
          body = FormData [(''prompt'', ''Cozy Scandinavian living room''),
                           (''style'', ''Scandinavian''), (''mode'', ''text'')]\<rparr>]
   \<and> fst (handleBackendRequest (overloaded_backend :: GenerateDesignOutput Backend)
            ''/chat'' text_mode_payload)
     = [\<lparr>url = ''http://localhost:8001/chat'', http_method = ''POST'',
          headers = [(''Content-Type'', ''application/json'')],
          body = JsonText (''{prompt:Cozy Scandinavian living room,style:Scandinavian,''
                           @ ''mode:text,baseImage:undefined,floorPlan:null}'')\<rparr>]"
proof -
  let ?env = "overloaded_backend :: GenerateDesignOutput Backend"
  have keys: "distinct (map fst text_mode_payload)"
    by (simp add: text_mode_payload_def)
  have url: "BACKEND_URL ?env = ''http://localhost:8001''"
    by (simp add: BACKEND_URL_def overloaded_backend_def)
  have json: "JSON_stringify ?env text_mode_payload
                = Inr (''{prompt:Cozy Scandinavian living room,style:Scandinavian,''
                       @ ''mode:text,baseImage:undefined,floorPlan:null}'')"
    by (simp add: overloaded_backend_def sample_stringify_def text_mode_payload_def)
  have other: "''/chat'' \<noteq> ''/generate-design''"
    by simp
  note encoded = request_body_encoding [OF keys, of ?env]
  from encoded [THEN conjunct1]
  have form: "fst (handleBackendRequest ?env ''/generate-design'' text_mode_payload)
       = [\<lparr>url = ''http://localhost:8001/generate-design'', http_method = ''POST'', headers = [],
            body = FormData [(''prompt'', ''Cozy Scandinavian living room''),
                             (''style'', ''Scandinavian''), (''mode'', ''text'')]\<rparr>]"
    by (auto simp: url text_mode_payload_def)
  from encoded [THEN conjunct2, rule_format, OF conjI [OF other json]]
  have "fst (handleBackendRequest ?env ''/chat'' text_mode_payload)
          = [\<lparr>url = ''http://localhost:8001/chat'', http_method = ''POST'',
               headers = [(''Content-Type'', ''application/json'')],
               body = JsonText (''{prompt:Cozy Scandinavian living room,style:Scandinavian,''
                                @ ''mode:text,baseImage:undefined,floorPlan:null}'')\<rparr>]"
    by (simp add: url)
  with form show ?thesis
    by simp
qed

section \<open>Properties of the studio controller\<close>

lemma studio_setters [simp]:
  "studio (setPrompt v w) = (studio w)\<lparr>prompt := v\<rparr>"
  "studio (setGeneratedImages imgs w) = (studio w)\<lparr>generatedImages := imgs\<rparr>"
  "studio (setSelectedImageIndex i w) = (studio w)\<lparr>selectedImageIndex := i\<rparr>"
  "studio (toast t w) = studio w"
  by (simp_all add: setPrompt_def setGeneratedImages_def setSelectedImageIndex_def toast_def)

lemma toasts_setters [simp]:
  "toasts (setPrompt v w) = toasts w"
  "toasts (setGeneratedImages imgs w) = toasts w"
  "toasts (setSelectedImageIndex i w) = toasts w"
  "toasts (toast t w) = toasts w @ [t]"
  by (simp_all add: setPrompt_def setGeneratedImages_def setSelectedImageIndex_def toast_def)

lemma network_setters [simp]:
  "network (setPrompt v w) = network w"
  "network (setGeneratedImages imgs w) = network w"
  "network (setSelectedImageIndex i w) = network w"
  "network (toast t w) = network w"
  by (simp_all add: setPrompt_def setGeneratedImages_def setSelectedImageIndex_def toast_def)

lemma await_action_fields [simp]:
  "studio (fst (await_action action inp w)) = studio w"
  "toasts (fst (await_action action inp w)) = toasts w"
  "network (fst (await_action action inp w)) = network w @ fst (action inp)"
  "snd (await_action action inp w) = snd (action inp)"
  by (simp_all add: await_action_def split: prod.split)

lemma generation_try_missing:
  assumes "missing_fields mode (studio w)"
  shows "\<exists>d. generation_try g r (studio w) mode (setGeneratedImages None w)
           = (toast \<lparr>variant = ''destructive'', title = ''Missing fields'', description = d\<rparr>
                (setGeneratedImages None w), None)"
  using assms
  by (auto simp: missing_fields_def generation_try_def split: if_splits option.splits)

lemma request_designs_outcome:
  "toasts (fst (request_designs g p w)) = toasts w"
  "network (fst (request_designs g p w)) = network w @ fst (g p)"
  "snd (g p) = Inl e \<Longrightarrow>
     snd (request_designs g p w) = Some e \<and> studio (fst (request_designs g p w)) = studio w"
  "snd (g p) = Inr (Failure error) \<Longrightarrow>
     snd (request_designs g p w)
       = Some (ErrorObject (if error = [] then ''An unexpected error occurred.'' else error))
     \<and> studio (fst (request_designs g p w)) = studio w"
  "snd (g p) = Inr (Success output) \<Longrightarrow>
     snd (request_designs g p w) = None
     \<and> studio (fst (request_designs g p w))
        = (studio w)\<lparr>generatedImages := Some (data output), selectedImageIndex := 0,
                     prompt := []\<rparr>"
  by (cases "g p";
      simp add: request_designs_def await_action_def after_generation_def show_images_def
        resetInputs_def split: sum.split ActionResult.split)+

lemma generation_try_text:
  assumes "prompt st \<noteq> []" "style st \<noteq> []"
  shows "generation_try g r st ''text'' w = request_designs g (mode_payload ''text'' st []) w"
    and "generation_outcome g r ''text'' st = Some (snd (g (mode_payload ''text'' st [])))"
  using assms
  by (simp_all add: generation_try_def generation_outcome_def missing_fields_def
        mode_payload_def)

lemma generation_try_image:
  assumes "sourceImageFile st = Some f" "prompt st \<noteq> []"
  shows "generation_try g r st ''image'' w =
           (case fileToDataUri r f of
              Inl e \<Rightarrow> (w, Some e)
            | Inr uri \<Rightarrow> request_designs g (mode_payload ''image'' st uri) w)"
    and "generation_outcome g r ''image'' st =
           (case fileToDataUri r f of
              Inl e \<Rightarrow> Some (Inl e)
            | Inr uri \<Rightarrow> Some (snd (g (mode_payload ''image'' st uri))))"
  using assms
  by (simp_all add: generation_try_def generation_outcome_def missing_fields_def
        mode_payload_def mode_file_def split: sum.split)

lemma generation_try_floorplan:
  assumes "floorPlanFile st = Some f" "style st \<noteq> []"
  shows "generation_try g r st ''floorplan'' w =
           (case fileToDataUri r f of
              Inl e \<Rightarrow> (w, Some e)
            | Inr uri \<Rightarrow> request_designs g (mode_payload ''floorplan'' st uri) w)"
    and "generation_outcome g r ''floorplan'' st =
           (case fileToDataUri r f of
              Inl e \<Rightarrow> Some (Inl e)
            | Inr uri \<Rightarrow> Some (snd (g (mode_payload ''floorplan'' st uri))))"
  using assms
  by (simp_all add: generation_try_def generation_outcome_def missing_fields_def
        mode_payload_def mode_file_def split: sum.split)

lemma generation_outcome_modes:
  assumes "generation_outcome g r mode st = Some outcome"
  shows "(mode = ''text'' \<and> prompt st \<noteq> [] \<and> style st \<noteq> [])
         \<or> (mode = ''image'' \<and> (\<exists>f. sourceImageFile st = Some f) \<and> prompt st \<noteq> [])
         \<or> (mode = ''floorplan'' \<and> (\<exists>f. floorPlanFile st = Some f) \<and> style st \<noteq> [])"
proof -
  from assms have present: "\<not> missing_fields mode st"
    and known: "mode = ''text'' \<or> mode = ''image'' \<or> mode = ''floorplan''"
    by (auto simp: generation_outcome_def split: if_splits)
  from known show ?thesis
  proof (elim disjE)
    assume "mode = ''text''"
    with present show ?thesis by (simp add: missing_fields_def)
  next
    assume "mode = ''image''"
    with present show ?thesis by (simp add: missing_fields_def)
  next
    assume "mode = ''floorplan''"
    with present show ?thesis by (simp add: missing_fields_def)
  qed
qed

lemma generation_try_dispatched:
  assumes "generation_outcome g r mode st = Some outcome"
  shows "toasts (fst (generation_try g r st mode w)) = toasts w
         \<and> (case outcome of
               Inl e \<Rightarrow>
                 snd (generation_try g r st mode w) = Some e
                 \<and> studio (fst (generation_try g r st mode w)) = studio w
             | Inr (Failure error) \<Rightarrow>
                 snd (generation_try g r st mode w)
                   = Some (ErrorObject
                       (if error = [] then ''An unexpected error occurred.'' else error))
                 \<and> studio (fst (generation_try g r st mode w)) = studio w
             | Inr (Success output) \<Rightarrow>
                 snd (generation_try g r st mode w) = None
                 \<and> studio (fst (generation_try g r st mode w))
                    = (studio w)\<lparr>generatedImages := Some (data output),
                                 selectedImageIndex := 0, prompt := []\<rparr>)"
proof -
  have effect: ?thesis
    if "generation_try g r st mode w = request_designs g p w" "snd (g p) = outcome" for p
  proof (cases outcome)
    case (Inl e)
    with that request_designs_outcome(3) [of g p e w] show ?thesis
      by (simp add: request_designs_outcome(1))
  next
    case (Inr result)
    show ?thesis
    proof (cases result)
      case (Success out)
      with Inr that request_designs_outcome(5) [of g p out w] show ?thesis
        by (simp add: request_designs_outcome(1))
    next
      case (Failure error)
      with Inr that request_designs_outcome(4) [of g p error w] show ?thesis
        by (simp add: request_designs_outcome(1))
    qed
  qed
  have after_read: ?thesis
    if tried: "generation_try g r st mode w =
               (case fileToDataUri r f of
                  Inl e \<Rightarrow> (w, Some e)
                | Inr uri \<Rightarrow> request_designs g (mode_payload mode st uri) w)"
      and out: "generation_outcome g r mode st =
               (case fileToDataUri r f of
                  Inl e \<Rightarrow> Some (Inl e)
                | Inr uri \<Rightarrow> Some (snd (g (mode_payload mode st uri))))" for f
  proof (cases "fileToDataUri r f")
    case (Inl e)
    with tried out assms show ?thesis by auto
  next
    case (Inr uri)
    with tried out assms show ?thesis
      by (intro effect [of "mode_payload mode st uri"]) simp_all
  qed
  from generation_outcome_modes [OF assms] show ?thesis
  proof (elim disjE conjE exE)
    assume a: "mode = ''text''" "prompt st \<noteq> []" "style st \<noteq> []"
    from generation_try_text [OF a(2,3)] a(1) assms show ?thesis
      by (intro effect [of "mode_payload mode st []"]) simp_all
  next
    fix f assume a: "mode = ''image''" "prompt st \<noteq> []" "sourceImageFile st = Some f"
    from generation_try_image [OF a(3,2)] a(1) show ?thesis
      by (intro after_read [of f]) (simp_all split: sum.split)
  next
    fix f assume a: "mode = ''floorplan''" "style st \<noteq> []" "floorPlanFile st = Some f"
    from generation_try_floorplan [OF a(3,2)] a(1) show ?thesis
      by (intro after_read [of f]) (simp_all split: sum.split)
  qed
qed

lemmas rpc_evaluation =
  handleBackendRequest_def try_block_def build_request_def read_response_def ok_def
  catch_block_def errorMessage_def BACKEND_URL_def string_of_nat.simps digit_char_def
  overloaded_backend_def unreachable_backend_def answering_backend_def sample_stringify_def

lemmas studio_evaluation =
  handleGenerationSubmit_def generation_try_def request_designs_def await_action_def
  after_generation_def show_images_def resetInputs_def fileToDataUri_def
  handleEditSubmit_def edit_try_def handleClear_def
  generation_outcome_def missing_fields_def mode_file_def mode_payload_def
  failure_message_def failing_reader_def loading_reader_def
  showing_one_image_def showing_two_images_def two_designs_def

text \<open>
  C1, as the code has it. A submission that passes validation and then fails
  (the file read rejects, the action rejects, or it returns a failure result)
  leaves the displayed image array null, whatever it was before, leaves every
  other field of the session state as it was, and adds one notice titled
  "Generation Failed" that carries the error message.
\<close>

theorem failed_generation_clears_images:
  assumes "generation_outcome g r mode (studio w) = Some outcome"
    and "failure_message outcome = Some msg"
  shows "studio (handleGenerationSubmit g r mode w) = (studio w)\<lparr>generatedImages := None\<rparr>
         \<and> toasts (handleGenerationSubmit g r mode w)
            = toasts w @ [\<lparr>variant = ''destructive'', title = ''Generation Failed'',
                           description = msg\<rparr>]"
proof -
  let ?w1 = "setGeneratedImages None w"
  note tried = generation_try_dispatched [OF assms(1), of ?w1]
  show ?thesis
  proof (cases outcome)
    case (Inl e)
    with tried have "snd (generation_try g r (studio w) mode ?w1) = Some e"
      and "studio (fst (generation_try g r (studio w) mode ?w1)) = studio ?w1"
      and "toasts (fst (generation_try g r (studio w) mode ?w1)) = toasts ?w1"
      by simp_all
    with Inl assms(2) show ?thesis
      by (cases "generation_try g r (studio w) mode ?w1"; cases e)
         (simp_all add: handleGenerationSubmit_def failure_message_def)
  next
    case (Inr result)
    with assms(2) obtain error where failure: "result = Failure error"
      and msg: "msg = (if error = [] then ''An unexpected error occurred.'' else error)"
      by (cases result) (auto simp: failure_message_def)
    with Inr tried
    have "snd (generation_try g r (studio w) mode ?w1) = Some (ErrorObject msg)"
      and "studio (fst (generation_try g r (studio w) mode ?w1)) = studio ?w1"
      and "toasts (fst (generation_try g r (studio w) mode ?w1)) = toasts ?w1"
      by simp_all
    then show ?thesis
      by (cases "generation_try g r (studio w) mode ?w1")
         (simp add: handleGenerationSubmit_def)
  qed
qed

theorem failed_generation_clears_images_witness:
  "generatedImages
     (studio (handleGenerationSubmit (generateDesignAction overloaded_backend) failing_reader
                ''text'' showing_one_image)) = None
   \<and> toasts (handleGenerationSubmit (generateDesignAction overloaded_backend) failing_reader
               ''text'' showing_one_image)
      = [\<lparr>variant = ''destructive'', title = ''Generation Failed'',
           description = ''Backend request failed with status 500: model overloaded''\<rparr>]"
proof -
  let ?outcome = "Inr (Failure ''Backend request failed with status 500: model overloaded'')
                  :: thrown + GenerateDesignOutput ActionResult"
  have outcome: "generation_outcome (generateDesignAction overloaded_backend) failing_reader
                   ''text'' (studio showing_one_image) = Some ?outcome"
    by (simp add: studio_evaluation rpc_evaluation generateDesignAction_def)
  have message: "failure_message ?outcome
                   = Some ''Backend request failed with status 500: model overloaded''"
    by (simp add: failure_message_def)
  from failed_generation_clears_images [OF outcome message] show ?thesis
    by (simp add: showing_one_image_def)
qed

theorem failed_generation_keeps_images_counterexample:
  "failure_message
     (the (generation_outcome (generateDesignAction overloaded_backend) failing_reader
             ''text'' (studio showing_one_image)))
     = Some ''Backend request failed with status 500: model overloaded''
   \<and> generatedImages (studio showing_one_image) = Some [''/images/earlier.png'']
   \<and> generatedImages
        (studio (handleGenerationSubmit (generateDesignAction overloaded_backend)
                   failing_reader ''text'' showing_one_image))
      \<noteq> generatedImages (studio showing_one_image)"
  by (simp add: studio_evaluation rpc_evaluation generateDesignAction_def)

text \<open>
  C2, as the code has it. When a required field of the active mode is missing,
  the submission issues no backend request, shows one notice titled "Missing
  fields", and leaves the session state as it was except for the displayed
  image array, which it sets to null.
\<close>

theorem missing_fields_submission:
  assumes "missing_fields mode (studio w)"
  shows "network (handleGenerationSubmit g r mode w) = network w
         \<and> studio (handleGenerationSubmit g r mode w) = (studio w)\<lparr>generatedImages := None\<rparr>
         \<and> (\<exists>d. toasts (handleGenerationSubmit g r mode w)
                  = toasts w @ [\<lparr>variant = ''destructive'', title = ''Missing fields'',
                                 description = d\<rparr>])"
proof -
  from generation_try_missing [OF assms, of g r] obtain d where
    "generation_try g r (studio w) mode (setGeneratedImages None w)
       = (toast \<lparr>variant = ''destructive'', title = ''Missing fields'', description = d\<rparr>
            (setGeneratedImages None w), None)"
    by blast
  then show ?thesis
    by (simp add: handleGenerationSubmit_def)
qed

theorem missing_fields_submission_witness:
  "network (handleGenerationSubmit (generateDesignAction overloaded_backend) loading_reader
              ''image'' showing_one_image) = []
   \<and> generatedImages
        (studio (handleGenerationSubmit (generateDesignAction overloaded_backend)
                   loading_reader ''image'' showing_one_image)) = None
   \<and> prompt
        (studio (handleGenerationSubmit (generateDesignAction overloaded_backend)
                   loading_reader ''image'' showing_one_image))
      = ''Cozy Scandinavian living room''"
proof -
  have missing: "missing_fields ''image'' (studio showing_one_image)"
    by (simp add: missing_fields_def showing_one_image_def)
  from missing_fields_submission [OF missing] show ?thesis
    by (simp add: showing_one_image_def)
qed

theorem missing_fields_noop_counterexample:
  "missing_fields ''image'' (studio showing_one_image)
   \<and> generatedImages (studio showing_one_image) = Some [''/images/earlier.png'']
   \<and> generatedImages
        (studio (handleGenerationSubmit (generateDesignAction overloaded_backend)
                   loading_reader ''image'' showing_one_image)) = None
   \<and> studio (handleGenerationSubmit (generateDesignAction overloaded_backend)
               loading_reader ''image'' showing_one_image)
      \<noteq> studio showing_one_image"
  by (simp add: studio_evaluation)



lemma edit_try_outcome:
  "toasts (fst (edit_try a st images editPrompt w)) = toasts w"
  "network (fst (edit_try a st images editPrompt w))
     = network w
       @ fst (a [(''query'', JStr (''Edit this image with the following prompt: '' @ editPrompt))])"
  "snd (a [(''query'', JStr (''Edit this image with the following prompt: '' @ editPrompt))])
     = Inr (Success out) \<Longrightarrow>
   snd (edit_try a st images editPrompt w) = None
   \<and> studio (fst (edit_try a st images editPrompt w))
      = (studio w)\<lparr>generatedImages := Some [data out], selectedImageIndex := 0\<rparr>"
  "failure_message
     (snd (a [(''query'', JStr (''Edit this image with the following prompt: '' @ editPrompt))]))
     = Some msg \<Longrightarrow>
   snd (edit_try a st images editPrompt w) = Some (ErrorObject msg)
     \<and> studio (fst (edit_try a st images editPrompt w)) = studio w
   \<or> snd (edit_try a st images editPrompt w) = Some OtherThrown
     \<and> msg = ''Please try again later.''
     \<and> studio (fst (edit_try a st images editPrompt w)) = studio w"
  by (cases "a [(''query'', JStr (''Edit this image with the following prompt: '' @ editPrompt))]";
      auto simp: edit_try_def await_action_def failure_message_def Let_def
        split: sum.splits ActionResult.splits thrown.splits)+

text \<open>
  C7. With at least one generated image displayed, an edit submission whose
  action returns a success result replaces the displayed array by the
  one-element array holding the result's \<^verbatim>\<open>data\<close> and sets the selected index
  to 0; one whose action fails (an error result or a rejected call) leaves the
  session state as it was and adds one notice titled "Edit Failed" that
  carries the error message.
\<close>

theorem edit_submission:
  assumes "generatedImages (studio w) = Some images" and "images \<noteq> []"
  shows "(\<forall>output.
            snd (editDesignAction
                   [(''query'', JStr (''Edit this image with the following prompt: '' @ editPrompt))])
              = Inr (Success output) \<longrightarrow>
            studio (handleEditSubmit editDesignAction editPrompt w)
              = (studio w)\<lparr>generatedImages := Some [data output], selectedImageIndex := 0\<rparr>
            \<and> toasts (handleEditSubmit editDesignAction editPrompt w) = toasts w)
         \<and> (\<forall>msg.
               failure_message
                 (snd (editDesignAction
                   [(''query'', JStr (''Edit this image with the following prompt: '' @ editPrompt))]))
                 = Some msg \<longrightarrow>
               studio (handleEditSubmit editDesignAction editPrompt w) = studio w
               \<and> toasts (handleEditSubmit editDesignAction editPrompt w)
                  = toasts w @ [\<lparr>variant = ''destructive'', title = ''Edit Failed'',
                                 description = msg\<rparr>])"
proof (intro conjI allI impI)
  fix out
  assume succeeded: "snd (editDesignAction
                 [(''query'', JStr (''Edit this image with the following prompt: '' @ editPrompt))])
            = Inr (Success out)"
  from edit_try_outcome(3) [where a = editDesignAction and editPrompt = editPrompt
      and st = "studio w" and images = images and w = w, OF succeeded]
    edit_try_outcome(1) [of editDesignAction "studio w" images editPrompt w] assms
  show "studio (handleEditSubmit editDesignAction editPrompt w)
          = (studio w)\<lparr>generatedImages := Some [data out], selectedImageIndex := 0\<rparr>"
    and "toasts (handleEditSubmit editDesignAction editPrompt w) = toasts w"
    by (cases "edit_try editDesignAction (studio w) images editPrompt w";
        simp add: handleEditSubmit_def)+
next
  fix msg
  assume failed: "failure_message
            (snd (editDesignAction
               [(''query'', JStr (''Edit this image with the following prompt: '' @ editPrompt))]))
            = Some msg"
  from edit_try_outcome(4) [where a = editDesignAction and editPrompt = editPrompt
      and st = "studio w" and images = images and w = w, OF failed]
    edit_try_outcome(1) [of editDesignAction "studio w" images editPrompt w] assms
  show "studio (handleEditSubmit editDesignAction editPrompt w) = studio w"
    and "toasts (handleEditSubmit editDesignAction editPrompt w)
           = toasts w @ [\<lparr>variant = ''destructive'', title = ''Edit Failed'',
                          description = msg\<rparr>]"
    by (cases "edit_try editDesignAction (studio w) images editPrompt w";
        auto simp: handleEditSubmit_def)+
qed

theorem edit_submission_witness:
  "studio (handleEditSubmit (chatAction (answering_backend warm_neutrals))
             ''make the sofa blue'' showing_two_images)
     = (studio showing_two_images)\<lparr>generatedImages := Some [''Try warm neutrals.''],
                                     selectedImageIndex := 0\<rparr>
   \<and> studio (handleEditSubmit (chatAction overloaded_backend)
               ''make the sofa blue'' showing_two_images)
     = studio showing_two_images
   \<and> toasts (handleEditSubmit (chatAction overloaded_backend)
               ''make the sofa blue'' showing_two_images)
     = [\<lparr>variant = ''destructive'', title = ''Edit Failed'',
          description = ''Backend request failed with status 500: model overloaded''\<rparr>]"
proof -
  have shown: "generatedImages (studio showing_two_images)
                 = Some [''/images/a.png'', ''/images/b.png'']"
    and some: "[''/images/a.png'', ''/images/b.png''] \<noteq> []"
    by (simp_all add: showing_two_images_def)
  have answered: "snd (chatAction (answering_backend warm_neutrals)
                    [(''query'', JStr (''Edit this image with the following prompt: ''
                                        @ ''make the sofa blue''))])
                    = Inr (Success warm_neutrals)"
    by (simp add: chatAction_def rpc_evaluation)
  have refused: "failure_message (snd (chatAction overloaded_backend
                    [(''query'', JStr (''Edit this image with the following prompt: ''
                                        @ ''make the sofa blue''))]))
                    = Some ''Backend request failed with status 500: model overloaded''"
    by (simp add: chatAction_def rpc_evaluation failure_message_def)
  from edit_submission [OF shown some, of "chatAction (answering_backend warm_neutrals)"
      "''make the sofa blue''"] answered
  have "studio (handleEditSubmit (chatAction (answering_backend warm_neutrals))
                  ''make the sofa blue'' showing_two_images)
          = (studio showing_two_images)\<lparr>generatedImages := Some [data warm_neutrals],
                                          selectedImageIndex := 0\<rparr>"
    by blast
  moreover
  from edit_submission [OF shown some, of "chatAction overloaded_backend"
      "''make the sofa blue''"] refused
  have "studio (handleEditSubmit (chatAction overloaded_backend)
                  ''make the sofa blue'' showing_two_images) = studio showing_two_images
        \<and> toasts (handleEditSubmit (chatAction overloaded_backend)
                    ''make the sofa blue'' showing_two_images)
           = toasts showing_two_images
             @ [\<lparr>variant = ''destructive'', title = ''Edit Failed'',
                  description = ''Backend request failed with status 500: model overloaded''\<rparr>]"
    by blast
  ultimately show ?thesis
    by (simp add: warm_neutrals_def showing_two_images_def)
qed

text \<open>
  C9. Clearing sets the displayed image array to null and the selected index
  to 0 and changes nothing else: the prompt, the style, the active tab and the
  two selected files stay as they were, no notice is shown and no request is
  issued.
\<close>

theorem clear_resets_images_only:
  "studio (handleClear w) = (studio w)\<lparr>generatedImages := None, selectedImageIndex := 0\<rparr>
   \<and> generatedImages (studio (handleClear w)) = None
   \<and> selectedImageIndex (studio (handleClear w)) = 0
   \<and> prompt (studio (handleClear w)) = prompt (studio w)
   \<and> style (studio (handleClear w)) = style (studio w)
   \<and> activeTab (studio (handleClear w)) = activeTab (studio w)
   \<and> sourceImageFile (studio (handleClear w)) = sourceImageFile (studio w)
   \<and> floorPlanFile (studio (handleClear w)) = floorPlanFile (studio w)
   \<and> toasts (handleClear w) = toasts w
   \<and> network (handleClear w) = network w"
  by (simp add: handleClear_def)

lemma handleEditSubmit_network:
  assumes "generatedImages (studio w) = Some images" and "images \<noteq> []"
  shows "network (handleEditSubmit a editPrompt w)
           = network w
             @ fst (a [(''query'',
                        JStr (''Edit this image with the following prompt: '' @ editPrompt))])"
  using assms edit_try_outcome(2) [of a "studio w" images editPrompt w]
  by (cases "edit_try a (studio w) images editPrompt w";
      cases "snd (edit_try a (studio w) images editPrompt w)")
     (simp_all add: handleEditSubmit_def)

lemma handleBackendRequest_json_sent:
  assumes "endpoint \<noteq> ''/generate-design''"
  shows "fst (handleBackendRequest env endpoint inp)
           = (case JSON_stringify env inp of
                Inl e \<Rightarrow> []
              | Inr json \<Rightarrow>
                  [\<lparr>url = BACKEND_URL env @ endpoint, http_method = ''POST'',
                     headers = [(''Content-Type'', ''application/json'')],
                     body = JsonText json\<rparr>])"
  using assms
  by (simp add: handleBackendRequest_def try_block_def build_request_def split: sum.split)

text \<open>
  C10. With at least one generated image displayed, an edit submission issues
  at most one request: a POST to \<^verbatim>\<open>/chat\<close> with a JSON content type, whose body
  is the JSON text of the object whose only key is \<^verbatim>\<open>query\<close>, holding the
  fixed sentence followed by the edit prompt (and no request when that object
  cannot be serialized). The requests issued are the same whatever images are
  displayed and whichever is selected. When the chat endpoint answers 2xx
  with a parsable body, the displayed array becomes the one-element array
  holding that body's \<^verbatim>\<open>data\<close> text.
\<close>

theorem edit_dispatches_chat_query:
  assumes "generatedImages (studio w) = Some images" and "images \<noteq> []"
  shows "network (handleEditSubmit (chatAction env) editPrompt w)
           = network w
             @ (case JSON_stringify env
                       [(''query'',
                         JStr (''Edit this image with the following prompt: '' @ editPrompt))] of
                  Inl e \<Rightarrow> []
                | Inr json \<Rightarrow>
                    [\<lparr>url = BACKEND_URL env @ ''/chat'', http_method = ''POST'',
                       headers = [(''Content-Type'', ''application/json'')],
                       body = JsonText json\<rparr>])
         \<and> (\<forall>w2 images2.
               generatedImages (studio w2) = Some images2 \<and> images2 \<noteq> [] \<longrightarrow>
               drop (length (network w2)) (network (handleEditSubmit (chatAction env) editPrompt w2))
                 = drop (length (network w)) (network (handleEditSubmit (chatAction env) editPrompt w)))
         \<and> (\<forall>json response output.
               JSON_stringify env
                 [(''query'', JStr (''Edit this image with the following prompt: '' @ editPrompt))]
                 = Inr json
               \<and> fetch env \<lparr>url = BACKEND_URL env @ ''/chat'', http_method = ''POST'',
                              headers = [(''Content-Type'', ''application/json'')],
                              body = JsonText json\<rparr> = Inr response
               \<and> ok response \<and> read_json response = Inr output \<longrightarrow>
               generatedImages (studio (handleEditSubmit (chatAction env) editPrompt w))
                 = Some [data output])"
proof (intro conjI allI impI)
  let ?q = "[(''query'', JStr (''Edit this image with the following prompt: '' @ editPrompt))]"
  have sent: "fst (chatAction env ?q)
                = (case JSON_stringify env ?q of
                     Inl e \<Rightarrow> []
                   | Inr json \<Rightarrow>
                       [\<lparr>url = BACKEND_URL env @ ''/chat'', http_method = ''POST'',
                          headers = [(''Content-Type'', ''application/json'')],
                          body = JsonText json\<rparr>])"
    unfolding chatAction_def by (rule handleBackendRequest_json_sent) simp
  show first: "network (handleEditSubmit (chatAction env) editPrompt w)
           = network w
             @ (case JSON_stringify env ?q of
                  Inl e \<Rightarrow> []
                | Inr json \<Rightarrow>
                    [\<lparr>url = BACKEND_URL env @ ''/chat'', http_method = ''POST'',
                       headers = [(''Content-Type'', ''application/json'')],
                       body = JsonText json\<rparr>])"
    using handleEditSubmit_network [OF assms, of "chatAction env" editPrompt] sent by simp
  show "drop (length (network w2)) (network (handleEditSubmit (chatAction env) editPrompt w2))
          = drop (length (network w)) (network (handleEditSubmit (chatAction env) editPrompt w))"
    if "generatedImages (studio w2) = Some images2 \<and> images2 \<noteq> []" for w2 images2
  proof -
    from that have "network (handleEditSubmit (chatAction env) editPrompt w2)
                      = network w2 @ fst (chatAction env ?q)"
      by (intro handleEditSubmit_network [of w2 images2]) simp_all
    moreover have "network (handleEditSubmit (chatAction env) editPrompt w)
                     = network w @ fst (chatAction env ?q)"
      by (rule handleEditSubmit_network [OF assms])
    ultimately show ?thesis by simp
  qed
  show "generatedImages (studio (handleEditSubmit (chatAction env) editPrompt w))
          = Some [data out]"
    if answered: "JSON_stringify env ?q = Inr json
         \<and> fetch env \<lparr>url = BACKEND_URL env @ ''/chat'', http_method = ''POST'',
                        headers = [(''Content-Type'', ''application/json'')],
                        body = JsonText json\<rparr> = Inr response
         \<and> ok response \<and> read_json response = Inr out" for json response out
  proof -
    from answered have "snd (chatAction env ?q) = Inr (Success out)"
      by (simp add: chatAction_def handleBackendRequest_def try_block_def build_request_def
            read_response_def)
    from edit_try_outcome(3) [where a = "chatAction env" and editPrompt = editPrompt
        and st = "studio w" and images = images and w = w, OF this] assms
    show ?thesis
      by (cases "edit_try (chatAction env) (studio w) images editPrompt w")
         (simp add: handleEditSubmit_def)
  qed
qed

theorem edit_dispatches_chat_query_witness:
  "network (handleEditSubmit (chatAction (answering_backend warm_neutrals))
              ''make the sofa blue'' showing_two_images)
     = [\<lparr>url = ''http://localhost:8001/chat'', http_method = ''POST'',
          headers = [(''Content-Type'', ''application/json'')],
          body = JsonText
                   ''{query:Edit this image with the following prompt: make the sofa blue}''\<rparr>]
   \<and> generatedImages
        (studio (handleEditSubmit (chatAction (answering_backend warm_neutrals))
                   ''make the sofa blue'' showing_two_images))
     = Some [''Try warm neutrals.'']"
proof -
  let ?env = "answering_backend warm_neutrals"
  let ?request = "\<lparr>url = BACKEND_URL ?env @ ''/chat'', http_method = ''POST'',
                    headers = [(''Content-Type'', ''application/json'')],
                    body = JsonText
                      ''{query:Edit this image with the following prompt: make the sofa blue}''\<rparr>"
  let ?response = "\<lparr>status = 200, read_text = Inr ''{}'', read_json = Inr warm_neutrals\<rparr>"
  have shown: "generatedImages (studio showing_two_images)
                 = Some [''/images/a.png'', ''/images/b.png'']"
    and some: "[''/images/a.png'', ''/images/b.png''] \<noteq> []"
    by (simp_all add: showing_two_images_def)
  have json: "JSON_stringify ?env
                [(''query'', JStr (''Edit this image with the following prompt: ''
                                    @ ''make the sofa blue''))]
                = Inr ''{query:Edit this image with the following prompt: make the sofa blue}''"
    by (simp add: answering_backend_def sample_stringify_def)
  have fetched: "fetch ?env ?request = Inr ?response"
    by (simp add: answering_backend_def)
  have fine: "ok ?response" "read_json ?response = Inr warm_neutrals"
    by (simp_all add: ok_def)
  have url: "BACKEND_URL ?env = ''http://localhost:8001''"
    by (simp add: BACKEND_URL_def answering_backend_def)
  note dispatched = edit_dispatches_chat_query [OF shown some, of ?env "''make the sofa blue''"]
  from dispatched json
  have "network (handleEditSubmit (chatAction ?env) ''make the sofa blue'' showing_two_images)
          = network showing_two_images @ [?request]"
    by simp
  moreover
  from dispatched json fetched fine
  have "generatedImages
          (studio (handleEditSubmit (chatAction ?env) ''make the sofa blue'' showing_two_images))
          = Some [data warm_neutrals]"
    by blast
  ultimately show ?thesis
    by (simp add: BACKEND_URL_def answering_backend_def showing_two_images_def
          warm_neutrals_def)
qed

section \<open>Properties of the design chat\<close>

lemma reachable_in_flight_consistent:
  "reachable c \<Longrightarrow> in_flight_consistent c"
proof (induction rule: reachable.induct)
  case start
  show ?case by (simp add: in_flight_consistent_def initial_chat_def)
next
  case (typed c v)
  then show ?case
    by (simp add: in_flight_consistent_def setInput_def split: option.splits)
next
  case (submitted c)
  then show ?case
    by (simp add: in_flight_consistent_def handleSubmit_def isPending_def Let_def
          split: option.splits)
next
  case (settled c chat)
  then show ?case
    by (simp add: in_flight_consistent_def transition_def
          split: option.splits sum.splits ActionResult.splits)
qed

text \<open>
  C3, as the code has it. From every reachable state, submitting a query
  leaves the transcript unchanged or appends the user's message at its end, a
  successful reply appends the assistant's message at its end, and an error
  reverts the transcript to what it was before the query was submitted: it
  removes the user's message appended by the submission, and nothing else.
\<close>

theorem chat_transcript_steps:
  assumes "reachable c"
  shows "(messages (handleSubmit c) = messages c
          \<or> messages (handleSubmit c) = messages c @ [\<lparr>role = User, content = input c\<rparr>])
         \<and> (\<forall>closure output.
               pending c = Some closure
               \<and> snd (chat [(''query'', JStr (query closure))]) = Inr (Success output) \<longrightarrow>
               messages (transition chat c)
                 = messages c @ [\<lparr>role = Assistant, content = data output\<rparr>])
         \<and> (\<forall>closure error.
               pending c = Some closure
               \<and> snd (chat [(''query'', JStr (query closure))]) = Inr (Failure error) \<longrightarrow>
               messages c
                 = messages (transition chat c) @ [\<lparr>role = User, content = query closure\<rparr>])"
proof -
  from assms have "in_flight_consistent c"
    by (rule reachable_in_flight_consistent)
  then have held: "messages c = newMessages closure"
      "newMessages closure = rendered_messages closure @ [\<lparr>role = User, content = query closure\<rparr>]"
    if "pending c = Some closure" for closure
    using that by (simp_all add: in_flight_consistent_def)
  have submit: "messages (handleSubmit c) = messages c
                \<or> messages (handleSubmit c) = messages c @ [\<lparr>role = User, content = input c\<rparr>]"
    by (simp add: handleSubmit_def Let_def)
  have reply: "messages (transition chat c)
                 = messages c @ [\<lparr>role = Assistant, content = data out\<rparr>]"
    if "pending c = Some closure"
      "snd (chat [(''query'', JStr (query closure))]) = Inr (Success out)"
    for closure out
    using that held(1) [OF that(1)] by (simp add: transition_def)
  have revert: "messages c
                  = messages (transition chat c) @ [\<lparr>role = User, content = query closure\<rparr>]"
    if "pending c = Some closure"
      "snd (chat [(''query'', JStr (query closure))]) = Inr (Failure error)"
    for closure error
    using that held [OF that(1)] by (simp add: transition_def)
  from submit reply revert show ?thesis
    by blast
qed

lemmas chat_evaluation =
  asked_hello_def handleSubmit_def setInput_def initial_chat_def isPending_def trim_def
  is_white_space_def transition_def chatAction_def warm_neutrals_def Let_def

theorem chat_transcript_steps_witness:
  "messages (transition (chatAction (answering_backend warm_neutrals)) asked_hello)
     = [\<lparr>role = User, content = ''hello''\<rparr>,
        \<lparr>role = Assistant, content = ''Try warm neutrals.''\<rparr>]
   \<and> messages asked_hello
       = messages (transition (chatAction overloaded_backend) asked_hello)
         @ [\<lparr>role = User, content = ''hello''\<rparr>]"
proof -
  let ?closure = "\<lparr>rendered_messages = [], newMessages = [\<lparr>role = User, content = ''hello''\<rparr>],
                    query = ''hello''\<rparr>"
  have reach: "reachable asked_hello"
    unfolding asked_hello_def by (intro reachable.intros)
  have pending: "pending asked_hello = Some ?closure"
    by (simp add: chat_evaluation)
  have answered: "snd (chatAction (answering_backend warm_neutrals)
                         [(''query'', JStr (query ?closure))]) = Inr (Success warm_neutrals)"
    by (simp add: chatAction_def rpc_evaluation)
  have refused: "snd (chatAction overloaded_backend [(''query'', JStr (query ?closure))])
                   = Inr (Failure ''Backend request failed with status 500: model overloaded'')"
    by (simp add: chatAction_def rpc_evaluation)
  have shown: "messages asked_hello = [\<lparr>role = User, content = ''hello''\<rparr>]"
    by (simp add: chat_evaluation)
  from chat_transcript_steps [OF reach, of "chatAction (answering_backend warm_neutrals)"]
    pending answered
  have "messages (transition (chatAction (answering_backend warm_neutrals)) asked_hello)
          = messages asked_hello @ [\<lparr>role = Assistant, content = data warm_neutrals\<rparr>]"
    by blast
  moreover
  from chat_transcript_steps [OF reach, of "chatAction overloaded_backend"] pending refused
  have "messages asked_hello
          = messages (transition (chatAction overloaded_backend) asked_hello)
            @ [\<lparr>role = User, content = query ?closure\<rparr>]"
    by blast
  ultimately show ?thesis
    using shown by (simp add: warm_neutrals_def)
qed

theorem chat_append_only_counterexample:
  "reachable asked_hello
   \<and> messages asked_hello = [\<lparr>role = User, content = ''hello''\<rparr>]
   \<and> messages (transition (chatAction overloaded_backend) asked_hello) = []
   \<and> \<not> prefix (messages asked_hello)
           (messages (transition (chatAction overloaded_backend) asked_hello))"
proof -
  have "reachable asked_hello"
    unfolding asked_hello_def by (intro reachable.intros)
  moreover have "messages asked_hello = [\<lparr>role = User, content = ''hello''\<rparr>]"
    by (simp add: chat_evaluation)
  moreover have "messages (transition (chatAction overloaded_backend) asked_hello) = []"
    by (simp add: chat_evaluation rpc_evaluation)
  ultimately show ?thesis
    by simp
qed

end
